theory Spec2Isabelle
  imports Complex_Main
begin

section \<open>Python values and exceptions\<close>

text \<open>
  The model follows \<^verbatim>\<open>src/selenium/recon_engine.py\<close>. Python dictionaries with a known
  set of keys are records whose fields are options (\<open>None\<close>: the key is absent, so
  \<^verbatim>\<open>d.get(k, default)\<close> is a case distinction on the field). Python floats are idealised
  as exact rationals. Every \<^verbatim>\<open>raise\<close> that an \<^verbatim>\<open>except Exception\<close> clause can catch is a
  value \<open>Inl e\<close> of a sum type; \<open>e\<close> carries the exception's class name and \<^verbatim>\<open>str(e)\<close>.
  Logging and \<^verbatim>\<open>time.sleep\<close> have no effect on any value and are left out.
\<close>

datatype exn = Exn (exn_type: string) (exn_str: string)

datatype pyval = PInt int | PStr string

datatype timeval = TNum rat | TStr string

type_synonym pydata = "(string \<times> string) list"

definition digit_char :: "nat \<Rightarrow> char" where
  "digit_char d = char_of (48 + d)"

fun str_nat :: "nat \<Rightarrow> string" where
  "str_nat n = (if n < 10 then [digit_char n] else str_nat (n div 10) @ [digit_char (n mod 10)])"

definition str_int :: "int \<Rightarrow> string" where
  "str_int i = (if i < 0 then CHR ''-'' # str_nat (nat (- i)) else str_nat (nat i))"

definition str_opt :: "string option \<Rightarrow> string" where
  "str_opt v = (case v of None \<Rightarrow> ''None'' | Some s \<Rightarrow> s)"

definition get_or :: "'a option \<Rightarrow> 'a \<Rightarrow> 'a" where
  "get_or v d = (case v of None \<Rightarrow> d | Some x \<Rightarrow> x)"

text \<open>Sequencing of calls that may raise: the first exception ends the sequence.\<close>

definition raise_bind :: "exn + 'a \<Rightarrow> ('a \<Rightarrow> exn + 'b) \<Rightarrow> exn + 'b" where
  "raise_bind r f = (case r of Inl e \<Rightarrow> Inl e | Inr v \<Rightarrow> f v)"

definition quoted :: "string \<Rightarrow> string" where
  "quoted s = CHR 0x27 # s @ [CHR 0x27]"

text \<open>
  \<^verbatim>\<open>round(x, n)\<close> on the exact value, ties to the even neighbour.
\<close>

definition round_half_even :: "rat \<Rightarrow> int" where
  "round_half_even q =
     (let f = \<lfloor>q\<rfloor>; d = q - of_int f
      in if d < 1 / 2 then f else if 1 / 2 < d then f + 1 else if even f then f else f + 1)"

definition py_round :: "rat \<Rightarrow> nat \<Rightarrow> rat" where
  "py_round q n = of_int (round_half_even (q * 10 ^ n)) / 10 ^ n"

section \<open>The browser session\<close>

text \<open>
  The Selenium driver, the clock and the screenshot helper of \<^verbatim>\<open>BaseFetcher\<close> are not part
  of the repository's sources. A \<open>session\<close> is the state of that outside world at one
  instant: each field is what the corresponding call returns (or raises) in that state.
\<close>

record visibility =
  visible_elements :: int
  hidden_elements :: int
  viewport_height :: int
  document_height :: int
  scrollable :: bool

record liberation =
  no_fixed_overlays :: bool
  no_blur :: bool
  text_selectable :: bool
  right_click_enabled :: bool
  new_buttons :: int
  new_links :: int
  new_inputs :: int

record timing =
  time_since_navigation :: rat
  dom_content_loaded :: int
  resources_loaded :: int

record session =
  drv_current_url :: "exn + string"
  drv_title :: "exn + string"
  drv_element_count :: "exn + int"
  drv_body_length :: "exn + int"
  drv_cookies :: "exn + int"
  drv_local_storage :: "exn + int"
  drv_visibility_check :: "exn + visibility"
  drv_liberation_check :: "exn + liberation"
  drv_timing_check :: "exn + timing"
  drv_dom_stats :: "exn + (string \<times> pyval) list"
  drv_take_screenshot :: "string \<Rightarrow> exn + string option"
  clock_iso :: string
  clock_time :: rat

section \<open>State snapshots\<close>

text \<open>
  The dictionary built by \<^verbatim>\<open>_capture_state_snapshot\<close> and read by \<^verbatim>\<open>_calculate_impact\<close> and
  \<^verbatim>\<open>_detect_state_changes\<close>. The last three keys are read by \<^verbatim>\<open>_calculate_impact\<close> but
  written by no function of the file. The key \<^verbatim>\<open>'error'\<close> is the field \<open>snap_error\<close>.
\<close>

record snapshot =
  url :: "string option"
  title :: "string option"
  element_count :: "int option"
  body_length :: "int option"
  cookies :: "int option"
  local_storage_items :: "int option"
  timestamp :: "rat option"
  snap_error :: "string option"
  downloadable_content :: "int option"
  interactive_elements :: "int option"
  has_overlays :: "bool option"

definition empty_snapshot :: snapshot where
  "empty_snapshot =
     \<lparr>url = None, title = None, element_count = None, body_length = None, cookies = None,
      local_storage_items = None, timestamp = None, snap_error = None,
      downloadable_content = None, interactive_elements = None, has_overlays = None\<rparr>"

definition error_snapshot :: "session \<Rightarrow> exn \<Rightarrow> snapshot" where
  "error_snapshot s e =
     empty_snapshot\<lparr>timestamp := Some (clock_time s), snap_error := Some (exn_str e)\<rparr>"

text \<open>
  \<^verbatim>\<open>_capture_state_snapshot\<close>: one \<^verbatim>\<open>try\<close> around the whole dictionary display, whose items
  are evaluated in order (\<open>read_metrics\<close>); the first read that raises sends control to
  the handler, which returns the timestamp and the error text only.
\<close>

definition read_metrics :: "session \<Rightarrow> exn + snapshot" where
  "read_metrics s =
     raise_bind (drv_current_url s) (\<lambda>u.
     raise_bind (drv_title s) (\<lambda>t.
     raise_bind (drv_element_count s) (\<lambda>n.
     raise_bind (drv_body_length s) (\<lambda>b.
     raise_bind (drv_cookies s) (\<lambda>c.
     raise_bind (drv_local_storage s) (\<lambda>l.
       Inr (empty_snapshot\<lparr>url := Some u, title := Some t, element_count := Some n,
              body_length := Some b, cookies := Some c, local_storage_items := Some l,
              timestamp := Some (clock_time s)\<rparr>)))))))"

definition capture_state_snapshot :: "session \<Rightarrow> snapshot" where
  "capture_state_snapshot s =
     (case read_metrics s of Inl e \<Rightarrow> error_snapshot s e | Inr snap \<Rightarrow> snap)"

section \<open>Impact of a tactic between two snapshots\<close>

record impact =
  url_changed :: bool
  elements_added :: int
  text_added :: int
  cookies_modified :: bool
  storage_modified :: bool
  content_increase_pct :: rat
  features_unlocked :: "string list"
  effectiveness :: string
  impact_context :: "pydata option"

definition content_increase :: "snapshot \<Rightarrow> snapshot \<Rightarrow> rat" where
  "content_increase before after =
     (if get_or (body_length before) 0 > 0
      then of_int (get_or (body_length after) 0 - get_or (body_length before) 0)
             / of_int (get_or (body_length before) 0) * 100
      else 0)"

definition unlocked_features :: "snapshot \<Rightarrow> snapshot \<Rightarrow> string list" where
  "unlocked_features before after =
     (if get_or (downloadable_content after) 0 > get_or (downloadable_content before) 0
      then [''additional_downloads''] else [])
     @ (if get_or (interactive_elements after) 0 > get_or (interactive_elements before) 0
        then [''new_interactions''] else [])
     @ (if get_or (has_overlays before) True \<and> \<not> get_or (has_overlays after) False
        then [''unobstructed_view''] else [])"

text \<open>The local variable \<^verbatim>\<open>significant_changes\<close> of \<^verbatim>\<open>_calculate_impact\<close>.\<close>

definition impact_significant_changes :: "snapshot \<Rightarrow> snapshot \<Rightarrow> bool" where
  "impact_significant_changes before after =
     (get_or (url before) '''' \<noteq> get_or (url after) ''''
      \<or> \<bar>get_or (element_count after) 0 - get_or (element_count before) 0\<bar> > 10
      \<or> \<bar>get_or (body_length after) 0 - get_or (body_length before) 0\<bar> > 100
      \<or> length (unlocked_features before after) > 0
      \<or> content_increase before after > 20)"

definition calculate_impact :: "snapshot \<Rightarrow> snapshot \<Rightarrow> pydata option \<Rightarrow> impact" where
  "calculate_impact before after ctx =
     \<lparr>url_changed = (get_or (url before) '''' \<noteq> get_or (url after) ''''),
      elements_added = get_or (element_count after) 0 - get_or (element_count before) 0,
      text_added = get_or (body_length after) 0 - get_or (body_length before) 0,
      cookies_modified = (get_or (cookies after) 0 \<noteq> get_or (cookies before) 0),
      storage_modified =
        (get_or (local_storage_items after) 0 \<noteq> get_or (local_storage_items before) 0),
      content_increase_pct = content_increase before after,
      features_unlocked = unlocked_features before after,
      effectiveness =
        (if impact_significant_changes before after \<and> length (unlocked_features before after) > 0
         then ''high''
         else if impact_significant_changes before after \<or> content_increase before after > 10
         then ''medium''
         else ''low''),
      impact_context = (case ctx of None \<Rightarrow> None | Some d \<Rightarrow> if d = [] then None else Some d)\<rparr>"

text \<open>\<^verbatim>\<open>_detect_state_changes\<close>: the list of rendered change lines, in the source's order.\<close>

definition detect_state_changes :: "snapshot \<Rightarrow> snapshot \<Rightarrow> string list" where
  "detect_state_changes before after =
     (let elem_diff = get_or (element_count after) 0 - get_or (element_count before) 0;
          text_diff = get_or (body_length after) 0 - get_or (body_length before) 0;
          cookie_diff = get_or (cookies after) 0 - get_or (cookies before) 0;
          storage_before = get_or (local_storage_items before) 0;
          storage_after = get_or (local_storage_items after) 0
      in (if url before \<noteq> url after
          then [''URL changed from '' @ str_opt (url before) @ '' to '' @ str_opt (url after)]
          else [])
       @ (if \<bar>elem_diff\<bar> > 5
          then (if elem_diff > 0 then [''Added '' @ str_int elem_diff @ '' elements'']
                else [''Removed '' @ str_int \<bar>elem_diff\<bar> @ '' elements''])
          else [])
       @ (if \<bar>text_diff\<bar> > 100
          then (if text_diff > 0 then [''Added ~'' @ str_int text_diff @ '' characters of text'']
                else [''Removed ~'' @ str_int \<bar>text_diff\<bar> @ '' characters of text''])
          else [])
       @ (if cookie_diff > 0 then [str_int cookie_diff @ '' new cookies set'']
          else if cookie_diff < 0 then [str_int \<bar>cookie_diff\<bar> @ '' cookies removed'']
          else [])
       @ (if storage_before \<noteq> storage_after
          then [''LocalStorage changed from '' @ str_int storage_before @ '' to ''
                @ str_int storage_after @ '' items'']
          else [])
       @ (if title before \<noteq> title after
          then [''Page title changed to: '' @ str_opt (title after)]
          else []))"

section \<open>Measured impact of a tactic (safe run)\<close>

text \<open>
  The \<^verbatim>\<open>before_state\<close> dictionary read by \<^verbatim>\<open>_measure_tactic_impact\<close>: one field per key the
  function looks up. The timestamp is a number or a string, as its writer chose.
\<close>

record before_state =
  bs_url :: "string option"
  bs_element_count :: "int option"
  bs_body_length :: "int option"
  bs_visible_elements :: "int option"
  bs_document_height :: "int option"
  bs_scrollable :: "bool option"
  bs_timestamp :: "timeval option"
  bs_resources_loaded :: "int option"
  bs_no_fixed_overlays :: "bool option"
  bs_no_blur :: "bool option"

record content_delta =
  text_length_before :: int
  text_length_after :: int
  cd_text_added :: int
  text_removed :: int
  percent_change :: rat

record visibility_delta =
  elements_revealed :: int
  elements_hidden :: int
  hidden_count :: int
  page_height_change :: int
  became_scrollable :: bool

record perf_delta =
  pd_execution_time :: rat
  resource_change :: int

text \<open>
  The dictionary returned by \<^verbatim>\<open>_measure_tactic_impact\<close>. Its keys \<^verbatim>\<open>'success'\<close>, \<^verbatim>\<open>'url_changed'\<close>,
  \<^verbatim>\<open>'summary'\<close> and \<^verbatim>\<open>'error'\<close> are the fields \<open>measured_ok\<close>, \<open>m_url_changed\<close>, \<open>m_summary\<close> and
  \<open>m_error\<close>; a sub-dictionary that is still \<^verbatim>\<open>{}\<close> is \<open>None\<close>.
\<close>

record tactic_impact =
  measured_ok :: bool
  elements_changed :: int
  m_url_changed :: bool
  new_element_count :: int
  new_url :: "string option"
  content_changes :: "content_delta option"
  visibility_changes :: "visibility_delta option"
  liberation_indicators :: "liberation option"
  performance_impact :: "perf_delta option"
  significant_change :: bool
  m_summary :: "string list option"
  m_error :: "string option"

definition initial_tactic_impact :: tactic_impact where
  "initial_tactic_impact =
     \<lparr>measured_ok = True, elements_changed = 0, m_url_changed = False, new_element_count = 0,
      new_url = None, content_changes = None, visibility_changes = None,
      liberation_indicators = None, performance_impact = None, significant_change = False,
      m_summary = None, m_error = None\<rparr>"

text \<open>\<^verbatim>\<open>time_since_navigation - before_state.get('timestamp', 0)\<close>: a string operand raises.\<close>

definition elapsed_since :: "rat \<Rightarrow> timeval option \<Rightarrow> exn + rat" where
  "elapsed_since now ts =
     (case ts of
        None \<Rightarrow> Inr now
      | Some (TNum t0) \<Rightarrow> Inr (now - t0)
      | Some (TStr _) \<Rightarrow>
          Inl (Exn ''TypeError''
                (''unsupported operand type(s) for -: '' @ quoted ''float'' @ '' and ''
                 @ quoted ''str'')))"

text \<open>The seven entries of \<^verbatim>\<open>significant_factors\<close>, in the source's order.\<close>

definition significant_factors ::
  "tactic_impact \<Rightarrow> content_delta \<Rightarrow> visibility_delta \<Rightarrow> liberation \<Rightarrow> before_state \<Rightarrow> bool list"
where
  "significant_factors i cd vd lc bs =
     [elements_changed i > 10,
      percent_change cd > 10,
      elements_revealed vd > 5,
      m_url_changed i,
      no_fixed_overlays lc \<and> \<not> get_or (bs_no_fixed_overlays bs) True,
      no_blur lc \<and> \<not> get_or (bs_no_blur bs) True,
      new_buttons lc > 0 \<or> new_links lc > 0]"

definition impact_summary ::
  "tactic_impact \<Rightarrow> content_delta \<Rightarrow> visibility_delta \<Rightarrow> liberation \<Rightarrow> string list"
where
  "impact_summary i cd vd lc =
     (if elements_changed i > 0 then [str_int (elements_changed i) @ '' elements changed'']
      else [])
     @ (if elements_revealed vd > 0 then [str_int (elements_revealed vd) @ '' elements revealed'']
        else [])
     @ (if cd_text_added cd > 100
        then [''~'' @ str_int (cd_text_added cd) @ '' characters of text revealed''] else [])
     @ (if no_fixed_overlays lc then [''Overlays removed''] else [])
     @ (if no_blur lc then [''Blur effects removed''] else [])"

text \<open>
  The body of the \<^verbatim>\<open>try\<close> of \<^verbatim>\<open>_measure_tactic_impact\<close>. The dictionary is mutated step by
  step, so an exception leaves the fields written so far: the result is the dictionary
  reached and the exception raised, if any.
\<close>

definition measure_try :: "session \<Rightarrow> before_state \<Rightarrow> tactic_impact \<Rightarrow> tactic_impact \<times> exn option"
where
  "measure_try s bs i0 =
     (case drv_element_count s of
        Inl e \<Rightarrow> (i0, Some e)
      | Inr n \<Rightarrow>
     (let i1 = i0\<lparr>new_element_count := n,
                  elements_changed := \<bar>n - get_or (bs_element_count bs) 0\<bar>\<rparr>
      in case drv_current_url s of
        Inl e \<Rightarrow> (i1, Some e)
      | Inr u \<Rightarrow>
     (let changed = (u \<noteq> get_or (bs_url bs) '''');
          i2 = i1\<lparr>m_url_changed := changed, new_url := (if changed then Some u else None)\<rparr>
      in case drv_body_length s of
        Inl e \<Rightarrow> (i2, Some e)
      | Inr len \<Rightarrow>
     (let before_len = get_or (bs_body_length bs) 0;
          cd = \<lparr>text_length_before = before_len, text_length_after = len,
                cd_text_added = max 0 (len - before_len),
                text_removed = max 0 (before_len - len),
                percent_change = of_int \<bar>len - before_len\<bar> / of_int (max before_len 1) * 100\<rparr>;
          i3 = i2\<lparr>content_changes := Some cd\<rparr>
      in case drv_visibility_check s of
        Inl e \<Rightarrow> (i3, Some e)
      | Inr vc \<Rightarrow>
     (let before_visible = get_or (bs_visible_elements bs) 0;
          current_visible = visible_elements vc;
          vd = \<lparr>elements_revealed = max 0 (current_visible - before_visible),
                elements_hidden = max 0 (before_visible - current_visible),
                hidden_count = hidden_elements vc,
                page_height_change = document_height vc - get_or (bs_document_height bs) 0,
                became_scrollable = (scrollable vc \<and> \<not> get_or (bs_scrollable bs) False)\<rparr>;
          i4 = i3\<lparr>visibility_changes := Some vd\<rparr>
      in case drv_liberation_check s of
        Inl e \<Rightarrow> (i4, Some e)
      | Inr lc \<Rightarrow>
     (let i5 = i4\<lparr>liberation_indicators := Some lc\<rparr>
      in case drv_timing_check s of
        Inl e \<Rightarrow> (i5, Some e)
      | Inr tc \<Rightarrow>
     (case elapsed_since (time_since_navigation tc) (bs_timestamp bs) of
        Inl e \<Rightarrow> (i5, Some e)
      | Inr dt \<Rightarrow>
     (let i6 = i5\<lparr>performance_impact :=
                    Some \<lparr>pd_execution_time = dt,
                          resource_change =
                            resources_loaded tc - get_or (bs_resources_loaded bs) 0\<rparr>\<rparr>;
          i7 = i6\<lparr>significant_change := list_ex id (significant_factors i6 cd vd lc bs)\<rparr>
      in (i7\<lparr>m_summary := Some (impact_summary i7 cd vd lc)\<rparr>, None)))))))))"

text \<open>The handler's fallback measurement, itself inside a \<^verbatim>\<open>try\<close>.\<close>

definition measure_fallback :: "session \<Rightarrow> before_state \<Rightarrow> tactic_impact \<Rightarrow> tactic_impact" where
  "measure_fallback s bs i =
     (case drv_element_count s of
        Inl _ \<Rightarrow> i
      | Inr n \<Rightarrow>
     (let i1 = i\<lparr>new_element_count := n,
                 elements_changed := \<bar>n - get_or (bs_element_count bs) 0\<bar>\<rparr>
      in case drv_current_url s of
        Inl _ \<Rightarrow> i1
      | Inr u \<Rightarrow> i1\<lparr>m_url_changed := (u \<noteq> get_or (bs_url bs) '''')\<rparr>))"

definition measure_tactic_impact :: "session \<Rightarrow> before_state \<Rightarrow> tactic_impact" where
  "measure_tactic_impact s bs =
     (case measure_try s bs initial_tactic_impact of
        (i, None) \<Rightarrow> i
      | (i, Some e) \<Rightarrow>
          measure_fallback s bs (i\<lparr>measured_ok := False, m_error := Some (exn_str e)\<rparr>))"

section \<open>The tactic catalogues and the executor\<close>

text \<open>
  The toolkit (\<^verbatim>\<open>selenium_fetcher.toolkit.Toolkit\<close>) is not part of the sources. A toolkit is
  a parameter: for each call the catalogues make, a probe that runs in a session, returns the
  dictionary of the call or raises, and leaves the session in a new state. The dictionary
  is read through \<^verbatim>\<open>result.get\<close> only, at the keys below; \<^verbatim>\<open>'success'\<close> is a boolean when
  present.
\<close>

record probe_result =
  r_success :: "bool option"
  r_details :: "string option"
  r_data :: "pydata option"
  r_error :: "string option"

type_synonym probe = "session \<Rightarrow> (exn + probe_result) \<times> session"

datatype tk_call =
    Remove_overlays bool
  | Expand_collapsed_content
  | Remove_sticky_elements
  | Reveal_hidden_elements
  | Disable_lazy_loading
  | Bypass_right_click_protection
  | Bypass_paywall
  | Manipulate_cookies
  | Override_javascript_checks
  | Spoof_referrer
  | Extract_hidden_data
  | Extract_shadow_dom
  | Extract_browser_storage
  | Extract_canvas_data
  | Detect_ajax_patterns nat
  | Intercept_downloads
  | Humanize_browser
  | Probe_endpoints string
  | Bypass_cloudflare

type_synonym toolkit = "tk_call \<Rightarrow> probe"

record safe_tactic =
  tactic_name :: string
  tactic_description :: string
  tactic_method :: probe

record catalog_tactic = safe_tactic +
  tactic_level :: int

definition safe_tactics :: "toolkit \<Rightarrow> safe_tactic list" where
  "safe_tactics toolkit =
     [\<lparr>tactic_name = ''remove_overlays'',
       tactic_description = ''Remove popups and overlays blocking content'',
       tactic_method = toolkit (Remove_overlays True)\<rparr>,
      \<lparr>tactic_name = ''expand_content'',
       tactic_description = ''Expand collapsed sections and hidden content'',
       tactic_method = toolkit Expand_collapsed_content\<rparr>,
      \<lparr>tactic_name = ''extract_hidden_data'',
       tactic_description = ''Extract metadata and hidden information'',
       tactic_method = toolkit Extract_hidden_data\<rparr>,
      \<lparr>tactic_name = ''detect_ajax'',
       tactic_description = ''Monitor AJAX/dynamic content patterns'',
       tactic_method = toolkit (Detect_ajax_patterns 3)\<rparr>,
      \<lparr>tactic_name = ''disable_lazy_loading'',
       tactic_description = ''Force lazy-loaded content to appear'',
       tactic_method = toolkit Disable_lazy_loading\<rparr>,
      \<lparr>tactic_name = ''extract_shadow_dom'',
       tactic_description = ''Extract content from shadow DOM elements'',
       tactic_method = toolkit Extract_shadow_dom\<rparr>]"

text \<open>
  The argument \<^verbatim>\<open>self.driver.current_url\<close> of \<^verbatim>\<open>probe_endpoints\<close> is read when the lambda
  runs, inside the executor's \<^verbatim>\<open>try\<close>.
\<close>

definition probe_endpoints_method :: "toolkit \<Rightarrow> probe" where
  "probe_endpoints_method toolkit s =
     (case drv_current_url s of
        Inl e \<Rightarrow> (Inl e, s)
      | Inr u \<Rightarrow> toolkit (Probe_endpoints u) s)"

definition mk_tactic :: "string \<Rightarrow> int \<Rightarrow> string \<Rightarrow> probe \<Rightarrow> catalog_tactic" where
  "mk_tactic n l d m =
     \<lparr>tactic_name = n, tactic_description = d, tactic_method = m, tactic_level = l\<rparr>"

definition liberation_sequence :: "toolkit \<Rightarrow> catalog_tactic list" where
  "liberation_sequence toolkit =
     [mk_tactic ''remove_overlays'' 1 ''Remove modal overlays and popups''
        (toolkit (Remove_overlays True)),
      mk_tactic ''expand_content'' 1 ''Expand all collapsed content''
        (toolkit Expand_collapsed_content),
      mk_tactic ''remove_sticky'' 1 ''Remove sticky headers/footers''
        (toolkit Remove_sticky_elements),
      mk_tactic ''reveal_hidden'' 1 ''Make hidden elements visible''
        (toolkit Reveal_hidden_elements),
      mk_tactic ''disable_lazy_loading'' 1 ''Force lazy-loaded content to appear''
        (toolkit Disable_lazy_loading),
      mk_tactic ''bypass_right_click'' 2 ''Enable right-click and text selection''
        (toolkit Bypass_right_click_protection),
      mk_tactic ''bypass_paywall'' 2 ''Attempt paywall bypass techniques''
        (toolkit Bypass_paywall),
      mk_tactic ''manipulate_cookies'' 3 ''Set authentication cookies''
        (toolkit Manipulate_cookies),
      mk_tactic ''override_js_checks'' 3 ''Override JavaScript authentication checks''
        (toolkit Override_javascript_checks),
      mk_tactic ''spoof_referrer'' 3 ''Spoof referrer to appear from search''
        (toolkit Spoof_referrer),
      mk_tactic ''extract_hidden_data'' 4 ''Extract all hidden metadata''
        (toolkit Extract_hidden_data),
      mk_tactic ''extract_shadow_dom'' 4 ''Extract shadow DOM content''
        (toolkit Extract_shadow_dom),
      mk_tactic ''extract_storage'' 4 ''Extract browser storage data''
        (toolkit Extract_browser_storage),
      mk_tactic ''extract_canvas'' 4 ''Extract canvas/chart data''
        (toolkit Extract_canvas_data),
      mk_tactic ''detect_ajax'' 5 ''Deep AJAX pattern detection''
        (toolkit (Detect_ajax_patterns 5)),
      mk_tactic ''intercept_downloads'' 5 ''Intercept download attempts''
        (toolkit Intercept_downloads),
      mk_tactic ''humanize_browser'' 6 ''Make browser appear human-controlled''
        (toolkit Humanize_browser),
      mk_tactic ''probe_endpoints'' 6 ''Probe for hidden API endpoints''
        (probe_endpoints_method toolkit),
      mk_tactic ''bypass_cloudflare'' 6 ''Attempt Cloudflare bypass''
        (toolkit Bypass_cloudflare)]"

text \<open>
  One entry of the result list. The keys \<^verbatim>\<open>'tactic'\<close> and \<^verbatim>\<open>'impact'\<close> are the fields
  \<open>res_tactic\<close> and \<open>res_impact\<close>; a field that is \<open>None\<close> is a key the entry does not have,
  except \<open>error\<close>, where \<open>None\<close> is Python's \<^verbatim>\<open>None\<close>.
\<close>

datatype impact_any = Measured tactic_impact | Calculated impact

record tactic_result =
  res_tactic :: string
  level :: "int option"
  description :: string
  executed_at :: string
  execution_time :: rat
  success :: bool
  details :: string
  data :: "pydata option"
  error :: "string option"
  res_impact :: "impact_any option"
  state_changes :: "string list option"
  screenshot :: "string option"

text \<open>The entry appended by the executor's \<^verbatim>\<open>except Exception as e\<close> handler.\<close>

definition exception_result :: "string \<Rightarrow> int option \<Rightarrow> string \<Rightarrow> string \<Rightarrow> exn \<Rightarrow> tactic_result"
where
  "exception_result n l d now e =
     \<lparr>res_tactic = n, level = l, description = d, executed_at = now, execution_time = 0,
      success = False, details = ''Exception: '' @ exn_type e, data = None,
      error = Some (exn_str e), res_impact = None, state_changes = None, screenshot = None\<rparr>"

text \<open>The part of the report the executor writes: the screenshot list of the artifacts.\<close>

type_synonym screenshot_entry = "string \<times> string \<times> string"

record report =
  metadata_url :: string
  metadata_mode :: string
  report_title :: string
  artifacts_screenshots :: "screenshot_entry list"
  liberation_results :: "tactic_result list"

text \<open>
  The screenshot block shared by both executors: its own \<^verbatim>\<open>try\<close> swallows a failure of
  \<^verbatim>\<open>take_screenshot\<close>, and a \<^verbatim>\<open>None\<close> path adds nothing.
\<close>

definition attach_screenshot ::
  "string \<Rightarrow> session \<Rightarrow> tactic_result \<Rightarrow> report \<Rightarrow> tactic_result \<times> report"
where
  "attach_screenshot shot_name s r rep =
     (case drv_take_screenshot s shot_name of
        Inl _ \<Rightarrow> (r, rep)
      | Inr None \<Rightarrow> (r, rep)
      | Inr (Some path) \<Rightarrow>
          (r\<lparr>screenshot := Some path\<rparr>,
           rep\<lparr>artifacts_screenshots :=
                 artifacts_screenshots rep @ [(shot_name, path, executed_at r)]\<rparr>))"

subsection \<open>The safe executor\<close>

definition safe_before_state :: "session \<Rightarrow> exn + before_state" where
  "safe_before_state s =
     raise_bind (drv_current_url s) (\<lambda>u.
     raise_bind (drv_element_count s) (\<lambda>n.
       Inr \<lparr>bs_url = Some u, bs_element_count = Some n, bs_body_length = None,
            bs_visible_elements = None, bs_document_height = None, bs_scrollable = None,
            bs_timestamp = Some (TStr (clock_iso s)), bs_resources_loaded = None,
            bs_no_fixed_overlays = None, bs_no_blur = None\<rparr>))"

text \<open>
  One iteration of the loop of \<^verbatim>\<open>_run_safe_tactics\<close>: the entry appended, the report and the
  session afterwards. The clock is read from the session, which only a probe advances.
\<close>

definition safe_step :: "safe_tactic \<Rightarrow> session \<Rightarrow> report \<Rightarrow> tactic_result \<times> report \<times> session"
where
  "safe_step t s rep =
     (case safe_before_state s of
        Inl e \<Rightarrow>
          (exception_result (tactic_name t) None (tactic_description t) (clock_iso s) e, rep, s)
      | Inr before \<Rightarrow>
     (let start_time = clock_time s;
          (out, s1) = tactic_method t s
      in case out of
        Inl e \<Rightarrow>
          (exception_result (tactic_name t) None (tactic_description t) (clock_iso s1) e,
           rep, s1)
      | Inr result \<Rightarrow>
     (let m = measure_tactic_impact s1 before;
          enhanced_result =
            \<lparr>res_tactic = tactic_name t, level = None, description = tactic_description t,
             executed_at = clock_iso s, execution_time = clock_time s1 - start_time,
             success = get_or (r_success result) False,
             details = get_or (r_details result) '''',
             data = Some (if get_or (r_success result) False then get_or (r_data result) []
                           else []),
             error = r_error result, res_impact = Some (Measured m),
             state_changes = None, screenshot = None\<rparr>
      in if success enhanced_result \<and> elements_changed m > 0
         then (case attach_screenshot (''safe_'' @ tactic_name t) s1 enhanced_result rep of
                 (r, rep1) \<Rightarrow> (r, rep1, s1))
         else (enhanced_result, rep, s1))))"

fun run_safe_loop ::
  "safe_tactic list \<Rightarrow> session \<Rightarrow> report \<Rightarrow> tactic_result list \<times> report \<times> session"
where
  "run_safe_loop [] s rep = ([], rep, s)"
| "run_safe_loop (t # ts) s rep =
     (case safe_step t s rep of
        (r, rep1, s1) \<Rightarrow>
          (case run_safe_loop ts s1 rep1 of (rs, rep2, s2) \<Rightarrow> (r # rs, rep2, s2)))"

definition run_safe_tactics ::
  "toolkit \<Rightarrow> session \<Rightarrow> report \<Rightarrow> tactic_result list \<times> report \<times> session"
where
  "run_safe_tactics toolkit s rep = run_safe_loop (safe_tactics toolkit) s rep"

subsection \<open>The liberation executor\<close>

text \<open>
  \<^verbatim>\<open>enhanced_result['impact']['significant_change']\<close>: the dictionary returned by
  \<^verbatim>\<open>_calculate_impact\<close> has no such key, so the subscript raises.
\<close>

definition impact_item_significant_change :: "impact \<Rightarrow> exn + bool" where
  "impact_item_significant_change i = Inl (Exn ''KeyError'' (quoted ''significant_change''))"

definition liberation_step :: "catalog_tactic \<Rightarrow> session \<Rightarrow> report \<Rightarrow> tactic_result \<times> report \<times> session"
where
  "liberation_step t s rep =
     (let before = capture_state_snapshot s;
          start_time = clock_time s;
          (out, s1) = tactic_method t s
      in case out of
        Inl e \<Rightarrow>
          (exception_result (tactic_name t) (Some (tactic_level t)) (tactic_description t)
             (clock_iso s1) e, rep, s1)
      | Inr result \<Rightarrow>
     (let after = capture_state_snapshot s1;
          i = calculate_impact before after None;
          enhanced_result =
            \<lparr>res_tactic = tactic_name t, level = Some (tactic_level t),
             description = tactic_description t,
             executed_at = clock_iso s1, execution_time = clock_time s1 - start_time,
             success = get_or (r_success result) False,
             details = get_or (r_details result) '''',
             data = Some (if get_or (r_success result) False then get_or (r_data result) []
                           else []),
             error = r_error result, res_impact = Some (Calculated i),
             state_changes = Some (detect_state_changes before after), screenshot = None\<rparr>
      in if success enhanced_result
         then (case impact_item_significant_change i of
                 Inl e \<Rightarrow>
                   (exception_result (tactic_name t) (Some (tactic_level t))
                      (tactic_description t) (clock_iso s1) e, rep, s1)
               | Inr True \<Rightarrow>
                   (case attach_screenshot (''liberation_'' @ tactic_name t) s1
                           enhanced_result rep of
                      (r, rep1) \<Rightarrow> (r, rep1, s1))
               | Inr False \<Rightarrow> (enhanced_result, rep, s1))
         else (enhanced_result, rep, s1)))"

fun run_liberation_loop ::
  "catalog_tactic list \<Rightarrow> session \<Rightarrow> report \<Rightarrow> tactic_result list \<times> report \<times> session"
where
  "run_liberation_loop [] s rep = ([], rep, s)"
| "run_liberation_loop (t # ts) s rep =
     (case liberation_step t s rep of
        (r, rep1, s1) \<Rightarrow>
          (case run_liberation_loop ts s1 rep1 of (rs, rep2, s2) \<Rightarrow> (r # rs, rep2, s2)))"

definition run_liberation_tactics ::
  "toolkit \<Rightarrow> session \<Rightarrow> report \<Rightarrow> tactic_result list \<times> report \<times> session"
where
  "run_liberation_tactics toolkit s rep = run_liberation_loop (liberation_sequence toolkit) s rep"

subsection \<open>Statistics over a result list\<close>

record analysis =
  total_tactics :: nat
  successful_tactics :: nat
  high_impact_tactics :: "(string \<times> string list) list"
  failed_tactics :: "string list"
  most_effective :: "string option"
  recommendations :: "string list"
  success_rate :: rat

definition result_effectiveness :: "tactic_result \<Rightarrow> string option" where
  "result_effectiveness r =
     (case res_impact r of Some (Calculated i) \<Rightarrow> Some (effectiveness i) | _ \<Rightarrow> None)"

definition result_features :: "tactic_result \<Rightarrow> string list" where
  "result_features r =
     (case res_impact r of Some (Calculated i) \<Rightarrow> features_unlocked i | _ \<Rightarrow> [])"

definition analyze_tactic_effectiveness :: "tactic_result list \<Rightarrow> analysis" where
  "analyze_tactic_effectiveness results =
     (let successful = length (filter success results);
          high = map (\<lambda>r. (res_tactic r, result_features r))
                   (filter (\<lambda>r. success r \<and> result_effectiveness r = Some ''high'') results);
          best = (case high of [] \<Rightarrow> None | h # _ \<Rightarrow> Some (fst h))
      in \<lparr>total_tactics = length results,
          successful_tactics = successful,
          high_impact_tactics = high,
          failed_tactics = map res_tactic (filter (\<lambda>r. \<not> success r) results),
          most_effective = best,
          recommendations =
            (if successful = 0 then [''Consider more advanced techniques'']
             else if high \<noteq> [] then [''Prioritize '' @ str_opt best @ '' for this site type'']
             else []),
          success_rate =
            (if length results > 0 then of_nat successful / of_nat (length results) * 100
             else 0)\<rparr>)"

section \<open>DOM changes between two captures\<close>

text \<open>
  \<^verbatim>\<open>_detect_dom_changes\<close> compares the statistics returned by the page script with the ones
  kept from the previous call (\<^verbatim>\<open>self._last_dom_stats\<close>, here an explicit argument and
  result). A statistics dictionary is an association list in the dictionary's iteration
  order; its values are integers, and a string for \<^verbatim>\<open>body_hash\<close>.
\<close>

type_synonym dom_stats = "(string \<times> pyval) list"

record change_info =
  ci_type :: string
  previous :: int
  current :: int
  change :: int
  change_percent :: rat
  rate_per_second :: rat
  significance :: string

datatype detail = Numeric change_info | Non_numeric string pyval pyval

record dom_changes =
  summary :: "string list"
  dom_details :: "string \<rightharpoonup> detail"
  dom_performance_impact :: "(string \<times> string) list"
  significant_changes :: bool
  dom_error :: "string option"

definition initial_dom_changes :: dom_changes where
  "initial_dom_changes =
     \<lparr>summary = [], dom_details = Map.empty, dom_performance_impact = [],
      significant_changes = False, dom_error = None\<rparr>"

definition underscores_to_spaces :: "string \<Rightarrow> string" where
  "underscores_to_spaces key = map (\<lambda>c. if c = CHR ''_'' then CHR '' '' else c) key"

definition change_pct :: "int \<Rightarrow> int \<Rightarrow> rat" where
  "change_pct last_value chg =
     (if last_value > 0 then of_int chg / of_int last_value * 100 else 0)"

definition classify :: "rat \<Rightarrow> string" where
  "classify pct =
     (if \<bar>pct\<bar> > 50 then ''major'' else if \<bar>pct\<bar> > 20 then ''moderate'' else ''minor'')"

definition numeric_info :: "string \<Rightarrow> int \<Rightarrow> int \<Rightarrow> rat \<Rightarrow> change_info" where
  "numeric_info key last_value current_value time_diff =
     \<lparr>ci_type = key, previous = last_value, current = current_value,
      change = current_value - last_value,
      change_percent = py_round (change_pct last_value (current_value - last_value)) 1,
      rate_per_second =
        (if time_diff > 0 then py_round (of_int (current_value - last_value) / time_diff) 2
         else 0),
      significance = classify (change_pct last_value (current_value - last_value))\<rparr>"

definition record_numeric :: "string \<Rightarrow> int \<Rightarrow> int \<Rightarrow> rat \<Rightarrow> dom_changes \<Rightarrow> dom_changes" where
  "record_numeric key last_value current_value time_diff ch =
     (let chg = current_value - last_value
      in ch\<lparr>significant_changes :=
               (significant_changes ch \<or> \<bar>change_pct last_value chg\<bar> > 50),
             dom_details :=
               (dom_details ch)(key \<mapsto> Numeric (numeric_info key last_value current_value time_diff)),
             summary :=
               summary ch
               @ (if chg > 0 then [''Added '' @ str_int chg @ '' '' @ underscores_to_spaces key]
                  else if chg < 0
                  then [''Removed '' @ str_int \<bar>chg\<bar> @ '' '' @ underscores_to_spaces key]
                  else [])\<rparr>)"

definition record_non_numeric :: "string \<Rightarrow> pyval \<Rightarrow> pyval \<Rightarrow> dom_changes \<Rightarrow> dom_changes" where
  "record_non_numeric key last_value current_value ch =
     ch\<lparr>dom_details := (dom_details ch)(key \<mapsto> Non_numeric key last_value current_value),
        summary := summary ch @ [underscores_to_spaces key @ '' modified'']\<rparr>"

text \<open>
  The \<^verbatim>\<open>TypeError\<close> of an arithmetic operation or a comparison on a string; its text is the
  interpreter's for an integer and a string in that order.
\<close>

definition type_error_sub :: exn where
  "type_error_sub =
     Exn ''TypeError''
       (''unsupported operand type(s) for -: '' @ quoted ''int'' @ '' and '' @ quoted ''str'')"

definition type_error_cmp :: exn where
  "type_error_cmp =
     Exn ''TypeError''
       (quoted ''>'' @ '' not supported between instances of '' @ quoted ''str'' @ '' and ''
        @ quoted ''int'')"

text \<open>
  The loop over \<^verbatim>\<open>current_stats.items()\<close>. The result dictionary is mutated in place, so a
  subtraction that raises (an integer now, a string before) leaves what was recorded so far.
\<close>

fun analyze_metrics :: "dom_stats \<Rightarrow> dom_stats \<Rightarrow> rat \<Rightarrow> dom_changes \<Rightarrow> dom_changes \<times> exn option"
where
  "analyze_metrics [] last_stats time_diff ch = (ch, None)"
| "analyze_metrics ((key, current_value) # rest) last_stats time_diff ch =
     (if key = ''timestamp'' then analyze_metrics rest last_stats time_diff ch
      else case map_of last_stats key of
        None \<Rightarrow> analyze_metrics rest last_stats time_diff ch
      | Some last_value \<Rightarrow>
          if current_value = last_value then analyze_metrics rest last_stats time_diff ch
          else (case current_value of
                  PInt c \<Rightarrow>
                    (case last_value of
                       PInt l \<Rightarrow>
                         analyze_metrics rest last_stats time_diff
                           (record_numeric key l c time_diff ch)
                     | PStr _ \<Rightarrow> (ch, Some type_error_sub))
                | PStr _ \<Rightarrow>
                    analyze_metrics rest last_stats time_diff
                      (record_non_numeric key last_value current_value ch)))"

text \<open>\<^verbatim>\<open>d[key]\<close> and the integer reading of a value used in arithmetic or a comparison.\<close>

definition dict_item :: "dom_stats \<Rightarrow> string \<Rightarrow> exn + pyval" where
  "dict_item d key =
     (case map_of d key of None \<Rightarrow> Inl (Exn ''KeyError'' (quoted key)) | Some v \<Rightarrow> Inr v)"

definition as_int :: "exn \<Rightarrow> pyval \<Rightarrow> exn + int" where
  "as_int e v = (case v of PInt i \<Rightarrow> Inr i | PStr _ \<Rightarrow> Inl e)"

definition stat_now :: "dom_stats \<Rightarrow> string \<Rightarrow> exn \<Rightarrow> exn + int" where
  "stat_now d key e = raise_bind (dict_item d key) (as_int e)"

definition stat_before :: "dom_stats \<Rightarrow> string \<Rightarrow> exn \<Rightarrow> exn + int" where
  "stat_before d key e = as_int e (get_or (map_of d key) (PInt 0))"

definition time_diff_of :: "dom_stats \<Rightarrow> dom_stats \<Rightarrow> exn + rat" where
  "time_diff_of current_stats last_stats =
     raise_bind (stat_now current_stats ''timestamp'' type_error_sub) (\<lambda>t1.
     raise_bind (stat_before last_stats ''timestamp'' type_error_sub) (\<lambda>t0.
       Inr (of_int (t1 - t0) / 1000)))"

text \<open>The three checks after the loop; each writes one key of \<^verbatim>\<open>performance_impact\<close>.\<close>

definition performance_analysis ::
  "dom_stats \<Rightarrow> dom_stats \<Rightarrow> dom_changes \<Rightarrow> dom_changes \<times> exn option"
where
  "performance_analysis current_stats last_stats ch =
     (case raise_bind (stat_now current_stats ''total_elements'' type_error_cmp) (\<lambda>n.
           raise_bind (stat_before last_stats ''total_elements'' type_error_cmp) (\<lambda>n0.
             Inr (of_int n > (of_int n0 :: rat) * (3 / 2)))) of
        Inl e \<Rightarrow> (ch, Some e)
      | Inr grown \<Rightarrow>
     (let ch1 = (if grown
                 then ch\<lparr>dom_performance_impact := dom_performance_impact ch
                          @ [(''dom_growth'', ''High - DOM size increased significantly'')]\<rparr>
                 else ch)
      in case stat_now current_stats ''dom_depth'' type_error_cmp of
        Inl e \<Rightarrow> (ch1, Some e)
      | Inr depth \<Rightarrow>
     (let ch2 = (if depth > 32
                 then ch1\<lparr>dom_performance_impact := dom_performance_impact ch1
                          @ [(''dom_depth'', ''Warning - DOM depth is '' @ str_int depth
                               @ '' (>32 can impact performance)'')]\<rparr>
                 else ch1)
      in case raise_bind (stat_now current_stats ''scripts'' type_error_cmp) (\<lambda>n.
              raise_bind (stat_before last_stats ''scripts'' type_error_cmp) (\<lambda>n0.
                Inr (n, n0))) of
        Inl e \<Rightarrow> (ch2, Some e)
      | Inr (n, n0) \<Rightarrow>
          ((if n > n0
            then ch2\<lparr>dom_performance_impact := dom_performance_impact ch2
                     @ [(''new_scripts'', ''Added '' @ str_int (n - n0) @ '' scripts'')]\<rparr>
            else ch2), None))))"

definition compare_stats :: "dom_stats \<Rightarrow> dom_stats \<Rightarrow> dom_changes \<Rightarrow> dom_changes \<times> exn option"
where
  "compare_stats current_stats last_stats ch =
     (case time_diff_of current_stats last_stats of
        Inl e \<Rightarrow> (ch, Some e)
      | Inr time_diff \<Rightarrow>
          (case analyze_metrics current_stats last_stats time_diff ch of
             (ch1, Some e) \<Rightarrow> (ch1, Some e)
           | (ch1, None) \<Rightarrow> performance_analysis current_stats last_stats ch1))"

text \<open>
  \<^verbatim>\<open>_detect_dom_changes\<close>: the changes, and the statistics kept for the next call (updated only
  when nothing raised).
\<close>

definition detect_dom_changes :: "session \<Rightarrow> dom_stats option \<Rightarrow> dom_changes \<times> dom_stats option"
where
  "detect_dom_changes s last_dom_stats =
     (case drv_dom_stats s of
        Inl e \<Rightarrow> (initial_dom_changes\<lparr>dom_error := Some (exn_str e)\<rparr>, last_dom_stats)
      | Inr current_stats \<Rightarrow>
          (case last_dom_stats of
             None \<Rightarrow>
               (initial_dom_changes\<lparr>summary := [''Initial DOM capture'']\<rparr>, Some current_stats)
           | Some last_stats \<Rightarrow>
               (case compare_stats current_stats last_stats initial_dom_changes of
                  (ch, Some e) \<Rightarrow> (ch\<lparr>dom_error := Some (exn_str e)\<rparr>, last_dom_stats)
                | (ch, None) \<Rightarrow> (ch, Some current_stats))))"

section \<open>The mission\<close>

text \<open>
  A call of a bound method that declares one required positional parameter besides
  \<^verbatim>\<open>self\<close>: Python binds the arguments before the body runs and raises \<^verbatim>\<open>TypeError\<close> when
  their number is wrong.
\<close>

definition call_method1 :: "string \<Rightarrow> string \<Rightarrow> 'a list \<Rightarrow> ('a \<Rightarrow> exn + 'b) \<Rightarrow> exn + 'b" where
  "call_method1 fname param args body =
     (case args of
        [] \<Rightarrow>
          Inl (Exn ''TypeError''
                (fname @ ''() missing 1 required positional argument: '' @ quoted param))
      | [a] \<Rightarrow> body a
      | _ \<Rightarrow>
          Inl (Exn ''TypeError''
                (fname @ ''() takes 2 positional arguments but ''
                 @ str_nat (Suc (length args)) @ '' were given'')))"

text \<open>
  \<^verbatim>\<open>scout_site\<close>. What runs before the tactic phase (monitoring set-up, baseline, phase 1
  and its checkpoint) and after it (the checkpoint and phases 3 to 6) is a parameter:
  each either raises or returns the report and session it leaves. \<^verbatim>\<open>go_to_url\<close> belongs to
  \<^verbatim>\<open>BaseFetcher\<close>, which is not part of the sources.
\<close>

record collaborators =
  setup_monitoring :: "session \<Rightarrow> exn + session"
  go_to_url :: "string \<Rightarrow> session \<Rightarrow> exn + bool \<times> session"
  before_tactics :: "string \<Rightarrow> string \<Rightarrow> session \<Rightarrow> exn + report \<times> session"
  after_tactics :: "report \<Rightarrow> session \<Rightarrow> exn + report \<times> session"

definition tactic_phase ::
  "toolkit \<Rightarrow> bool \<Rightarrow> session \<Rightarrow> report \<Rightarrow> exn + tactic_result list \<times> report \<times> session"
where
  "tactic_phase toolkit safe_mode s rep =
     (if \<not> safe_mode
      then call_method1 ''ReconEngine._run_liberation_tactics'' ''report'' []
             (\<lambda>r. Inr (run_liberation_tactics toolkit s r))
      else call_method1 ''ReconEngine._run_safe_tactics'' ''report'' []
             (\<lambda>r. Inr (run_safe_tactics toolkit s r)))"

definition scout_site ::
  "collaborators \<Rightarrow> toolkit \<Rightarrow> session \<Rightarrow> string \<Rightarrow> bool \<Rightarrow> exn + report option"
where
  "scout_site env toolkit s url_arg safe_mode =
     (let mode = (if safe_mode then ''safe'' else ''LIBERATION'')
      in raise_bind (setup_monitoring env s) (\<lambda>s0.
         raise_bind (go_to_url env url_arg s0) (\<lambda>(ok, s1).
           if \<not> ok then Inr None
           else raise_bind (before_tactics env url_arg mode s1) (\<lambda>(rep, s2).
                raise_bind (tactic_phase toolkit safe_mode s2 rep) (\<lambda>(results, rep1, s3).
                raise_bind (after_tactics env (rep1\<lparr>liberation_results := results\<rparr>) s3)
                  (\<lambda>(rep2, s4). Inr (Some rep2)))))))"

section \<open>Reading catalogues and results\<close>

text \<open>The level the full catalogue gives to a tactic name, if it lists the name.\<close>

definition catalog_level :: "toolkit \<Rightarrow> string \<Rightarrow> int option" where
  "catalog_level toolkit n =
     map_of (map (\<lambda>t. (tactic_name t, tactic_level t)) (liberation_sequence toolkit)) n"

text \<open>The exception a probe raises in a session, when it raises.\<close>

definition raised_in :: "session \<Rightarrow> 'a safe_tactic_scheme \<Rightarrow> exn" where
  "raised_in s t = projl (fst (tactic_method t s))"

definition probe_raises_in :: "session \<Rightarrow> 'a safe_tactic_scheme \<Rightarrow> bool" where
  "probe_raises_in s t = (isl (fst (tactic_method t s)) \<and> snd (tactic_method t s) = s)"


section \<open>Concrete sessions, toolkits and catalogues\<close>

text \<open>A page that answers every read, and a session that is gone: every read raises.\<close>

definition s_ok :: session where
  "s_ok =
     \<lparr>drv_current_url = Inr ''https://example.com/'',
      drv_title = Inr ''Example'',
      drv_element_count = Inr 100,
      drv_body_length = Inr 2000,
      drv_cookies = Inr 3,
      drv_local_storage = Inr 1,
      drv_visibility_check =
        Inr \<lparr>visible_elements = 90, hidden_elements = 10, viewport_height = 800,
             document_height = 2400, scrollable = True\<rparr>,
      drv_liberation_check =
        Inr \<lparr>no_fixed_overlays = True, no_blur = True, text_selectable = True,
             right_click_enabled = True, new_buttons = 0, new_links = 0, new_inputs = 0\<rparr>,
      drv_timing_check =
        Inr \<lparr>time_since_navigation = 1500, dom_content_loaded = 300, resources_loaded = 12\<rparr>,
      drv_dom_stats =
        Inr [(''total_elements'', PInt 100), (''images'', PInt 15001), (''scripts'', PInt 4),
             (''body_hash'', PStr ''1a2b''), (''dom_depth'', PInt 9),
             (''timestamp'', PInt 1000)],
      drv_take_screenshot = (\<lambda>n. Inr None),
      clock_iso = ''2024-01-01T00:00:00'',
      clock_time = 0\<rparr>"

definition session_gone :: exn where
  "session_gone = Exn ''InvalidSessionIdException'' ''Message: invalid session id''"

definition s_dead :: session where
  "s_dead =
     \<lparr>drv_current_url = Inl session_gone, drv_title = Inl session_gone,
      drv_element_count = Inl session_gone, drv_body_length = Inl session_gone,
      drv_cookies = Inl session_gone, drv_local_storage = Inl session_gone,
      drv_visibility_check = Inl session_gone, drv_liberation_check = Inl session_gone,
      drv_timing_check = Inl session_gone, drv_dom_stats = Inl session_gone,
      drv_take_screenshot = (\<lambda>n. Inl session_gone),
      clock_iso = ''2024-01-01T00:00:05'', clock_time = 5\<rparr>"

text \<open>The same page after fifty elements appeared and the browser moved to another URL.\<close>

definition s_moved :: session where
  "s_moved = s_ok\<lparr>drv_current_url := Inr ''https://example.com/unlocked'',
                   drv_element_count := Inr 150\<rparr>"


definition rep0 :: report where
  "rep0 = \<lparr>metadata_url = ''https://example.com/'', metadata_mode = ''safe'',
           report_title = ''Example'', artifacts_screenshots = [], liberation_results = []\<rparr>"

definition ok_result :: probe_result where
  "ok_result = \<lparr>r_success = Some True, r_details = Some ''done'', r_data = None, r_error = None\<rparr>"

definition failed_result :: probe_result where
  "failed_result =
     \<lparr>r_success = Some False, r_details = None, r_data = None, r_error = Some ''nothing found''\<rparr>"

text \<open>A toolkit whose every call succeeds and leaves the page as it is.\<close>

definition tk_idle :: toolkit where
  "tk_idle c s = (Inr ok_result, s)"

text \<open>
  A toolkit under which the session is lost during \<^verbatim>\<open>expand_collapsed_content\<close> (the second
  safe tactic), and whose calls raise on a lost session.
\<close>

definition tk_loses_session :: toolkit where
  "tk_loses_session c s =
     (if c = Expand_collapsed_content then (Inl session_gone, s_dead)
      else if isl (drv_current_url s) then (Inl session_gone, s)
      else (Inr ok_result, s))"

text \<open>A toolkit whose \<^verbatim>\<open>remove_overlays\<close> raises an exception without a message.\<close>

definition tk_silent_failure :: toolkit where
  "tk_silent_failure c s =
     (if c = Remove_overlays True then (Inl (Exn ''AssertionError'' ''''), s)
      else (Inr ok_result, s))"

text \<open>A catalogue of five tactics whose third probe raises.\<close>

definition five_tactics :: "catalog_tactic list" where
  "five_tactics =
     [mk_tactic ''t1'' 1 ''first'' (\<lambda>s. (Inr failed_result, s)),
      mk_tactic ''t2'' 1 ''second'' (\<lambda>s. (Inr ok_result, s)),
      mk_tactic ''t3'' 2 ''third'' (\<lambda>s. (Inl (Exn ''ProbeError'' ''script failed''), s)),
      mk_tactic ''t4'' 2 ''fourth'' (\<lambda>s. (Inr failed_result, s)),
      mk_tactic ''t5'' 3 ''fifth'' (\<lambda>s. (Inr failed_result, s))]"

text \<open>Statistics of a previous capture, against which \<open>s_ok\<close> is compared.\<close>

definition last_stats0 :: dom_stats where
  "last_stats0 =
     [(''total_elements'', PInt 100), (''images'', PInt 10000), (''scripts'', PInt 4),
      (''body_hash'', PStr ''1a2b''), (''dom_depth'', PInt 9), (''timestamp'', PInt 0)]"

text \<open>Collaborators under which navigation and the first phase succeed.\<close>

definition env_ok :: collaborators where
  "env_ok =
     \<lparr>setup_monitoring = (\<lambda>s. Inr s),
      go_to_url = (\<lambda>u s. Inr (True, s)),
      before_tactics = (\<lambda>u m s. Inr (rep0\<lparr>metadata_url := u, metadata_mode := m\<rparr>, s)),
      after_tactics = (\<lambda>r s. Inr (r, s))\<rparr>"

definition env_unreachable :: collaborators where
  "env_unreachable = env_ok\<lparr>go_to_url := (\<lambda>u s. Inr (False, s))\<rparr>"

text \<open>A safe tactic whose probe raises.\<close>

definition raising_safe_tactic :: safe_tactic where
  "raising_safe_tactic =
     \<lparr>tactic_name = ''u1'', tactic_description = ''raises'',
      tactic_method = (\<lambda>s. (Inl (Exn ''ProbeError'' ''script failed''), s))\<rparr>"



section \<open>Lemmas about the executors\<close>

lemma run_liberation_loop_length: "length (fst (run_liberation_loop ts s rep)) = length ts"
proof (induction ts arbitrary: s rep)
  case Nil
  show ?case by simp
next
  case (Cons t ts)
  obtain r rep1 s1 where step: "liberation_step t s rep = (r, rep1, s1)"
    by (cases "liberation_step t s rep") auto
  obtain rs rep2 s2 where rest: "run_liberation_loop ts s1 rep1 = (rs, rep2, s2)"
    by (cases "run_liberation_loop ts s1 rep1") auto
  from Cons.IH [of s1 rep1] rest have "length rs = length ts" by simp
  with step rest show ?case by simp
qed

lemma run_safe_loop_length: "length (fst (run_safe_loop ts s rep)) = length ts"
proof (induction ts arbitrary: s rep)
  case Nil
  show ?case by simp
next
  case (Cons t ts)
  obtain r rep1 s1 where step: "safe_step t s rep = (r, rep1, s1)"
    by (cases "safe_step t s rep") auto
  obtain rs rep2 s2 where rest: "run_safe_loop ts s1 rep1 = (rs, rep2, s2)"
    by (cases "run_safe_loop ts s1 rep1") auto
  from Cons.IH [of s1 rep1] rest have "length rs = length ts" by simp
  with step rest show ?case by simp
qed

lemma liberation_loop_append:
  "run_liberation_loop (xs @ ys) s rep =
     (case run_liberation_loop xs s rep of
        (rs, rep1, s1) \<Rightarrow>
          (case run_liberation_loop ys s1 rep1 of (rs', rep2, s2) \<Rightarrow> (rs @ rs', rep2, s2)))"
  by (induction xs arbitrary: s rep) (auto split: prod.splits)

lemma safe_loop_append:
  "run_safe_loop (xs @ ys) s rep =
     (case run_safe_loop xs s rep of
        (rs, rep1, s1) \<Rightarrow>
          (case run_safe_loop ys s1 rep1 of (rs', rep2, s2) \<Rightarrow> (rs @ rs', rep2, s2)))"
  by (induction xs arbitrary: s rep) (auto split: prod.splits)

lemma liberation_step_raise:
  "fst (tactic_method t s) = Inl e \<Longrightarrow>
   liberation_step t s rep =
     (exception_result (tactic_name t) (Some (tactic_level t)) (tactic_description t)
        (clock_iso (snd (tactic_method t s))) e, rep, snd (tactic_method t s))"
  by (cases "tactic_method t s") (simp add: liberation_step_def Let_def)

lemma safe_step_raise:
  "safe_before_state s = Inr b \<Longrightarrow> fst (tactic_method t s) = Inl e \<Longrightarrow>
   safe_step t s rep =
     (exception_result (tactic_name t) None (tactic_description t)
        (clock_iso (snd (tactic_method t s))) e, rep, snd (tactic_method t s))"
  by (cases "tactic_method t s") (simp add: safe_step_def Let_def)

lemma safe_step_tactic: "res_tactic (fst (safe_step t s rep)) = tactic_name t"
  by (cases "tactic_method t s")
     (simp add: safe_step_def Let_def exception_result_def attach_screenshot_def
        split: sum.splits option.splits prod.splits)

lemma run_safe_loop_names: "map res_tactic (fst (run_safe_loop ts s rep)) = map tactic_name ts"
proof (induction ts arbitrary: s rep)
  case Nil
  show ?case by simp
next
  case (Cons t ts)
  obtain r rep1 s1 where step: "safe_step t s rep = (r, rep1, s1)"
    by (cases "safe_step t s rep") auto
  obtain rs rep2 s2 where rest: "run_safe_loop ts s1 rep1 = (rs, rep2, s2)"
    by (cases "run_safe_loop ts s1 rep1") auto
  from Cons.IH [of s1 rep1] rest have "map res_tactic rs = map tactic_name ts" by simp
  moreover from safe_step_tactic [of t s rep] step have "res_tactic r = tactic_name t" by simp
  ultimately show ?case using step rest by simp
qed

lemma capture_has_no_overlay_key: "has_overlays (capture_state_snapshot s) = None"
  by (simp add: capture_state_snapshot_def read_metrics_def raise_bind_def error_snapshot_def
      empty_snapshot_def split: sum.splits)

lemma tactic_phase_raises:
  "tactic_phase toolkit safe_mode s rep =
     Inl (Exn ''TypeError''
           ((if safe_mode then ''ReconEngine._run_safe_tactics''
             else ''ReconEngine._run_liberation_tactics'')
            @ ''() missing 1 required positional argument: '' @ quoted ''report''))"
  by (simp add: tactic_phase_def call_method1_def)

section \<open>The claims\<close>





text \<open>
  Claim C8, as stated, fails: the third tactic of the safe run is \<^verbatim>\<open>extract_hidden_data\<close>,
  which the full catalogue lists at level 4.
\<close>

theorem C8_counterexample_level_four:
  "res_tactic (fst (run_safe_tactics tk_idle s_ok rep0) ! 2) = ''extract_hidden_data''
   \<and> catalog_level tk_idle ''extract_hidden_data'' = Some 4"
proof -
  have "map res_tactic (fst (run_safe_tactics tk_idle s_ok rep0)) ! 2 = ''extract_hidden_data''"
    by (simp add: run_safe_tactics_def run_safe_loop_names) (simp add: safe_tactics_def)
  moreover have "length (fst (run_safe_tactics tk_idle s_ok rep0)) = 6"
    by (simp add: run_safe_tactics_def run_safe_loop_length) (simp add: safe_tactics_def)
  ultimately have "res_tactic (fst (run_safe_tactics tk_idle s_ok rep0) ! 2) = ''extract_hidden_data''"
    by simp
  then show ?thesis
    by (simp add: catalog_level_def liberation_sequence_def mk_tactic_def)
qed

text \<open>
  Claim C8, amended. Whatever the toolkit and the session do, the safe run executes the same
  six tactics in the same order, each of them listed in the full catalogue: three at level
  1 (\<^verbatim>\<open>remove_overlays\<close>, \<^verbatim>\<open>expand_content\<close>, \<^verbatim>\<open>disable_lazy_loading\<close>), two at level 4
  (\<^verbatim>\<open>extract_hidden_data\<close>, \<^verbatim>\<open>extract_shadow_dom\<close>) and one at level 5 (\<^verbatim>\<open>detect_ajax\<close>); none is
  of level 2, 3 or 6.
\<close>

theorem C8_safe_list_levels:
  "map res_tactic (fst (run_safe_tactics toolkit s rep)) =
     [''remove_overlays'', ''expand_content'', ''extract_hidden_data'', ''detect_ajax'',
      ''disable_lazy_loading'', ''extract_shadow_dom'']
   \<and> map (catalog_level toolkit) (map res_tactic (fst (run_safe_tactics toolkit s rep))) =
     [Some 1, Some 1, Some 4, Some 5, Some 1, Some 4]"
proof -
  have names: "map res_tactic (fst (run_safe_tactics toolkit s rep)) =
     [''remove_overlays'', ''expand_content'', ''extract_hidden_data'', ''detect_ajax'',
      ''disable_lazy_loading'', ''extract_shadow_dom'']"
    by (simp add: run_safe_tactics_def run_safe_loop_names) (simp add: safe_tactics_def)
  show ?thesis
    unfolding names
    by (simp add: catalog_level_def liberation_sequence_def mk_tactic_def)
qed

text \<open>
  Claim C9. Once navigation has succeeded and the steps before the tactic phase have
  returned, \<^verbatim>\<open>scout_site\<close> raises \<^verbatim>\<open>TypeError\<close>: the executor is called without its required
  argument \<^verbatim>\<open>report\<close>, in safe mode and in liberation mode alike, so no tactic runs. No call
  of \<^verbatim>\<open>scout_site\<close>, whatever its collaborators do, returns a report.
\<close>

theorem C9_scout_site_type_error:
  assumes "setup_monitoring env s = Inr s0"
    and "go_to_url env url_arg s0 = Inr (True, s1)"
    and "before_tactics env url_arg (if safe_mode then ''safe'' else ''LIBERATION'') s1
           = Inr (rep, s2)"
  shows "scout_site env toolkit s url_arg safe_mode =
     Inl (Exn ''TypeError''
           ((if safe_mode then ''ReconEngine._run_safe_tactics''
             else ''ReconEngine._run_liberation_tactics'')
            @ ''() missing 1 required positional argument: '' @ quoted ''report''))
   \<and> scout_site env' toolkit' s' url_arg' safe_mode' \<noteq> Inr (Some r)"
proof -
  have a: "scout_site env toolkit s url_arg safe_mode =
     Inl (Exn ''TypeError''
           ((if safe_mode then ''ReconEngine._run_safe_tactics''
             else ''ReconEngine._run_liberation_tactics'')
            @ ''() missing 1 required positional argument: '' @ quoted ''report''))"
    using assms by (simp add: scout_site_def raise_bind_def tactic_phase_raises)
  have b: "scout_site env' toolkit' s' url_arg' safe_mode' \<noteq> Inr (Some r)"
    by (simp add: scout_site_def raise_bind_def tactic_phase_raises Let_def
        split: sum.splits prod.splits)
  from a b show ?thesis by simp
qed

theorem C9_witness_liberation_mode:
  "scout_site env_ok tk_idle s_ok ''https://example.com/'' False =
     Inl (Exn ''TypeError''
           (''ReconEngine._run_liberation_tactics() missing 1 required positional argument: ''
            @ quoted ''report''))"
  using C9_scout_site_type_error [of env_ok s_ok s_ok "''https://example.com/''" s_ok False
      "rep0\<lparr>metadata_url := ''https://example.com/'', metadata_mode := ''LIBERATION''\<rparr>"
      s_ok tk_idle]
  by (simp add: env_ok_def)

text \<open>
  Claim C10. When neither snapshot has the key \<^verbatim>\<open>'has_overlays'\<close>, \<^verbatim>\<open>_calculate_impact\<close> lists
  \<^verbatim>\<open>'unobstructed_view'\<close> among the unlocked features, judges the change significant and
  rates it \<^verbatim>\<open>'high'\<close>, whatever else the snapshots hold. No snapshot made by
  \<^verbatim>\<open>_capture_state_snapshot\<close> has the key.
\<close>

theorem C10_missing_overlay_key_rates_high:
  assumes "has_overlays before = None" and "has_overlays after = None"
  shows "''unobstructed_view'' \<in> set (features_unlocked (calculate_impact before after ctx))
     \<and> impact_significant_changes before after
     \<and> effectiveness (calculate_impact before after ctx) = ''high''
     \<and> has_overlays (capture_state_snapshot s) = None"
  using assms
  by (simp add: calculate_impact_def impact_significant_changes_def unlocked_features_def
      get_or_def capture_has_no_overlay_key)

theorem C10_witness_identical_snapshots:
  "has_overlays (capture_state_snapshot s_ok) = None
   \<and> effectiveness
       (calculate_impact (capture_state_snapshot s_ok) (capture_state_snapshot s_ok) None)
       = ''high''
   \<and> elements_added
       (calculate_impact (capture_state_snapshot s_ok) (capture_state_snapshot s_ok) None) = 0"
proof -
  have h: "has_overlays (capture_state_snapshot s_ok) = None"
    by (rule capture_has_no_overlay_key)
  from C10_missing_overlay_key_rates_high [OF h h, of None s_ok]
  have "effectiveness
          (calculate_impact (capture_state_snapshot s_ok) (capture_state_snapshot s_ok) None)
          = ''high''"
    by simp
  moreover have "elements_added
          (calculate_impact (capture_state_snapshot s_ok) (capture_state_snapshot s_ok) None) = 0"
    by (simp add: calculate_impact_def)
  ultimately show ?thesis using h by simp
qed

section \<open>More lemmas about the executors\<close>

lemma exception_result_fields:
  "success (exception_result n l d now x) = False"
  "error (exception_result n l d now x) = Some (exn_str x)"
  "details (exception_result n l d now x) = ''Exception: '' @ exn_type x"
  "res_tactic (exception_result n l d now x) = n"
  by (simp_all add: exception_result_def)

lemma liberation_loop_raise_at:
  assumes "fst (tactic_method t (snd (snd (run_liberation_loop pre s rep)))) = Inl e"
  shows "fst (run_liberation_loop (pre @ t # post) s rep) =
     fst (run_liberation_loop pre s rep)
     @ exception_result (tactic_name t) (Some (tactic_level t)) (tactic_description t)
         (clock_iso (snd (tactic_method t (snd (snd (run_liberation_loop pre s rep)))))) e
     # fst (run_liberation_loop post
              (snd (tactic_method t (snd (snd (run_liberation_loop pre s rep)))))
              (fst (snd (run_liberation_loop pre s rep))))"
proof -
  obtain rs rep1 s1 where pre: "run_liberation_loop pre s rep = (rs, rep1, s1)"
    by (cases "run_liberation_loop pre s rep") auto
  from assms pre have r: "fst (tactic_method t s1) = Inl e" by simp
  obtain rs' rep2 s2 where post:
    "run_liberation_loop post (snd (tactic_method t s1)) rep1 = (rs', rep2, s2)"
    by (cases "run_liberation_loop post (snd (tactic_method t s1)) rep1") auto
  show ?thesis
    by (simp add: liberation_loop_append pre liberation_step_raise [OF r] post)
qed

lemma safe_loop_raise_at:
  assumes "safe_before_state (snd (snd (run_safe_loop pre s rep))) = Inr b"
    and "fst (tactic_method t (snd (snd (run_safe_loop pre s rep)))) = Inl e"
  shows "fst (run_safe_loop (pre @ t # post) s rep) =
     fst (run_safe_loop pre s rep)
     @ exception_result (tactic_name t) None (tactic_description t)
         (clock_iso (snd (tactic_method t (snd (snd (run_safe_loop pre s rep)))))) e
     # fst (run_safe_loop post
              (snd (tactic_method t (snd (snd (run_safe_loop pre s rep)))))
              (fst (snd (run_safe_loop pre s rep))))"
proof -
  obtain rs rep1 s1 where pre: "run_safe_loop pre s rep = (rs, rep1, s1)"
    by (cases "run_safe_loop pre s rep") auto
  from assms pre have b: "safe_before_state s1 = Inr b"
    and r: "fst (tactic_method t s1) = Inl e" by simp_all
  obtain rs' rep2 s2 where post:
    "run_safe_loop post (snd (tactic_method t s1)) rep1 = (rs', rep2, s2)"
    by (cases "run_safe_loop post (snd (tactic_method t s1)) rep1") auto
  show ?thesis
    by (simp add: safe_loop_append pre safe_step_raise [OF b r] post)
qed

lemma safe_step_dead:
  "drv_current_url s = Inl e \<Longrightarrow>
   safe_step t s rep =
     (exception_result (tactic_name t) None (tactic_description t) (clock_iso s) e, rep, s)"
  by (simp add: safe_step_def safe_before_state_def raise_bind_def)

lemma safe_loop_dead:
  "drv_current_url s = Inl e \<Longrightarrow>
   run_safe_loop ts s rep =
     (map (\<lambda>t. exception_result (tactic_name t) None (tactic_description t) (clock_iso s) e) ts,
      rep, s)"
  by (induction ts) (simp_all add: safe_step_dead)

lemma liberation_step_dead:
  "probe_raises_in s t \<Longrightarrow>
   liberation_step t s rep =
     (exception_result (tactic_name t) (Some (tactic_level t)) (tactic_description t)
        (clock_iso s) (raised_in s t), rep, s)"
  by (cases "tactic_method t s")
     (auto simp add: probe_raises_in_def raised_in_def liberation_step_def Let_def
        split: sum.splits)

lemma liberation_loop_dead:
  "list_all (probe_raises_in s) ts \<Longrightarrow>
   run_liberation_loop ts s rep =
     (map (\<lambda>t. exception_result (tactic_name t) (Some (tactic_level t)) (tactic_description t)
                 (clock_iso s) (raised_in s t)) ts,
      rep, s)"
  by (induction ts) (simp_all add: liberation_step_dead)

text \<open>
  The liberation executor records no success: when the probe reports one, the lookup of
  \<^verbatim>\<open>'significant_change'\<close> in the impact raises \<^verbatim>\<open>KeyError\<close> inside the \<^verbatim>\<open>try\<close>, and the handler's
  failure entry is appended instead.
\<close>

lemma liberation_never_succeeds: "\<not> success (fst (liberation_step t s rep))"
  by (cases "tactic_method t s")
     (simp add: liberation_step_def Let_def impact_item_significant_change_def
        exception_result_def split: sum.splits)

lemma success_rate_with_failures:
  "success_rate (analyze_tactic_effectiveness (done @ map (\<lambda>t. exception_result (n t) (l t) (d t) now (x t)) ts)) =
     (if length done + length ts > 0
      then of_nat (length (filter success done)) / of_nat (length done + length ts) * 100
      else 0)"
proof -
  have "filter success (map (\<lambda>t. exception_result (n t) (l t) (d t) now (x t)) ts) = []"
    by (induction ts) (simp_all add: exception_result_def)
  then show ?thesis
    by (simp add: analyze_tactic_effectiveness_def Let_def)
qed

lemma scout_site_unreachable:
  "setup_monitoring env s = Inr s0 \<Longrightarrow> go_to_url env u s0 = Inr (False, s1) \<Longrightarrow>
   scout_site env toolkit s u safe_mode = Inr None"
  by (simp add: scout_site_def raise_bind_def)


lemma safe_step_session:
  "safe_before_state s = Inr b \<Longrightarrow> snd (snd (safe_step t s rep)) = snd (tactic_method t s)"
  by (cases "tactic_method t s")
     (simp add: safe_step_def Let_def split: sum.splits prod.splits)

lemma safe_step_success:
  "safe_before_state s = Inr b \<Longrightarrow> fst (tactic_method t s) = Inr res \<Longrightarrow>
   success (fst (safe_step t s rep)) = get_or (r_success res) False"
  by (cases "tactic_method t s")
     (simp add: safe_step_def Let_def attach_screenshot_def
        split: sum.splits prod.splits option.splits)

section \<open>Claims about the executors\<close>

text \<open>
  Claim C1, as stated, fails in one detail: the error description is \<^verbatim>\<open>str(e)\<close>, which is
  empty for an exception raised without a message. The first safe tactic's probe raises
  such an exception; the result recorded for it has \<^verbatim>\<open>success == False\<close> and the empty string
  as its error.
\<close>

theorem C1_counterexample_empty_error_text:
  "fst (tk_silent_failure (Remove_overlays True) s_ok) = Inl (Exn ''AssertionError'' '''')
   \<and> success (fst (run_safe_tactics tk_silent_failure s_ok rep0) ! 0) = False
   \<and> error (fst (run_safe_tactics tk_silent_failure s_ok rep0) ! 0) = Some ''''"
proof -
  obtain b where h2: "safe_before_state (snd (snd (run_safe_loop [] s_ok rep0))) = Inr b"
    by (simp add: safe_before_state_def raise_bind_def s_ok_def)
  have p: "fst (tk_silent_failure (Remove_overlays True) s_ok) = Inl (Exn ''AssertionError'' '''')"
    by (simp add: tk_silent_failure_def)
  obtain t ts where cat: "safe_tactics tk_silent_failure = t # ts"
    and m: "tactic_method t = tk_silent_failure (Remove_overlays True)"
    by (simp add: safe_tactics_def)
  from p m have h3: "fst (tactic_method t (snd (snd (run_safe_loop [] s_ok rep0))))
     = Inl (Exn ''AssertionError'' '''')" by simp
  from safe_loop_raise_at [OF h2 h3, of ts]
  show ?thesis
    by (simp add: run_safe_tactics_def cat exception_result_def p)
qed

text \<open>
  Claim C1, amended. Both executors append exactly one result per catalogue entry, whatever
  the probes and the session do: 19 for the liberation sequence, 6 for the safe list, and
  as many as the catalogue has for any other catalogue. When the probe of a tactic raises
  (in the safe run: after the two reads of the before-state succeeded), the result appended
  for it is the handler's: \<^verbatim>\<open>success\<close> is \<^verbatim>\<open>False\<close>, \<^verbatim>\<open>error\<close> is \<^verbatim>\<open>str(e)\<close> (empty when the exception
  has no message) and \<^verbatim>\<open>details\<close> is \<^verbatim>\<open>'Exception: '\<close> followed by the class name, never
  empty; the results of the earlier tactics stay, and the later tactics run from the session
  the failed probe left.
\<close>

theorem C1_every_tactic_yields_one_result:
  assumes "fst (tactic_method t (snd (snd (run_liberation_loop pre s rep)))) = Inl e"
    and "safe_before_state (snd (snd (run_safe_loop spre s rep))) = Inr b"
    and "fst (tactic_method u (snd (snd (run_safe_loop spre s rep)))) = Inl e'"
  shows "length (fst (run_liberation_loop ts s rep)) = length ts
    \<and> length (fst (run_safe_loop us s rep)) = length us
    \<and> length (fst (run_liberation_tactics toolkit s rep)) = 19
    \<and> length (fst (run_safe_tactics toolkit s rep)) = 6
    \<and> fst (run_liberation_loop (pre @ t # post) s rep) =
        fst (run_liberation_loop pre s rep)
        @ exception_result (tactic_name t) (Some (tactic_level t)) (tactic_description t)
            (clock_iso (snd (tactic_method t (snd (snd (run_liberation_loop pre s rep)))))) e
        # fst (run_liberation_loop post
                 (snd (tactic_method t (snd (snd (run_liberation_loop pre s rep)))))
                 (fst (snd (run_liberation_loop pre s rep))))
    \<and> fst (run_safe_loop (spre @ u # spost) s rep) =
        fst (run_safe_loop spre s rep)
        @ exception_result (tactic_name u) None (tactic_description u)
            (clock_iso (snd (tactic_method u (snd (snd (run_safe_loop spre s rep)))))) e'
        # fst (run_safe_loop spost
                 (snd (tactic_method u (snd (snd (run_safe_loop spre s rep)))))
                 (fst (snd (run_safe_loop spre s rep))))
    \<and> success (exception_result n l d now x) = False
    \<and> error (exception_result n l d now x) = Some (exn_str x)
    \<and> details (exception_result n l d now x) = ''Exception: '' @ exn_type x"
proof -
  have "length (fst (run_liberation_tactics toolkit s rep)) = 19"
    by (simp add: run_liberation_tactics_def run_liberation_loop_length)
       (simp add: liberation_sequence_def)
  moreover have "length (fst (run_safe_tactics toolkit s rep)) = 6"
    by (simp add: run_safe_tactics_def run_safe_loop_length) (simp add: safe_tactics_def)
  ultimately show ?thesis
    using liberation_loop_raise_at [OF assms(1)] safe_loop_raise_at [OF assms(2) assms(3)]
    by (simp add: run_liberation_loop_length run_safe_loop_length exception_result_fields)
qed

text \<open>The scenario of the claim: a catalogue of five tactics whose third probe raises.\<close>

theorem C1_witness_third_of_five_raises:
  "length (fst (run_liberation_loop five_tactics s_ok rep0)) = 5
   \<and> success (fst (run_liberation_loop five_tactics s_ok rep0) ! 2) = False
   \<and> error (fst (run_liberation_loop five_tactics s_ok rep0) ! 2) = Some ''script failed''
   \<and> fst (run_safe_loop [raising_safe_tactic] s_ok rep0) =
       [exception_result ''u1'' None ''raises'' ''2024-01-01T00:00:00''
          (Exn ''ProbeError'' ''script failed'')]"
proof -
  define pre where "pre = take 2 five_tactics"
  define t where "t = five_tactics ! 2"
  define post where "post = drop 3 five_tactics"
  define x where "x = Exn ''ProbeError'' ''script failed''"
  have five: "five_tactics = pre @ t # post"
    by (simp add: pre_def t_def post_def five_tactics_def)
  have m: "tactic_method t s = (Inl x, s)" for s
    by (simp add: t_def x_def five_tactics_def mk_tactic_def)
  have h1: "fst (tactic_method t (snd (snd (run_liberation_loop pre s_ok rep0)))) = Inl x"
    by (simp add: m)
  obtain b where h2: "safe_before_state (snd (snd (run_safe_loop [] s_ok rep0))) = Inr b"
    by (simp add: safe_before_state_def raise_bind_def s_ok_def)
  have h3: "fst (tactic_method raising_safe_tactic (snd (snd (run_safe_loop [] s_ok rep0))))
      = Inl x"
    by (simp add: raising_safe_tactic_def x_def)
  have "length pre = 2" by (simp add: pre_def five_tactics_def)
  with run_liberation_loop_length [of pre s_ok rep0]
  have two: "length (fst (run_liberation_loop pre s_ok rep0)) = 2" by simp
  note c = C1_every_tactic_yields_one_result [OF h1 h2 h3, of five_tactics "[]" tk_idle post "[]"]
  from c have "length (fst (run_liberation_loop five_tactics s_ok rep0)) = length five_tactics"
    by blast
  then have len: "length (fst (run_liberation_loop five_tactics s_ok rep0)) = 5"
    by (simp add: five_tactics_def)
  from c have "fst (run_liberation_loop (pre @ t # post) s_ok rep0) ! 2 =
      exception_result (tactic_name t) (Some (tactic_level t)) (tactic_description t)
        (clock_iso (snd (tactic_method t (snd (snd (run_liberation_loop pre s_ok rep0)))))) x"
    using nth_append_length [of "fst (run_liberation_loop pre s_ok rep0)"] two by simp
  then have third: "success (fst (run_liberation_loop five_tactics s_ok rep0) ! 2) = False
     \<and> error (fst (run_liberation_loop five_tactics s_ok rep0) ! 2) = Some ''script failed''"
    by (simp add: five exception_result_def x_def)
  from c have "fst (run_safe_loop ([] @ raising_safe_tactic # []) s_ok rep0) =
        fst (run_safe_loop [] s_ok rep0)
        @ exception_result (tactic_name raising_safe_tactic) None
            (tactic_description raising_safe_tactic)
            (clock_iso (snd (tactic_method raising_safe_tactic
               (snd (snd (run_safe_loop [] s_ok rep0)))))) x
        # fst (run_safe_loop []
                 (snd (tactic_method raising_safe_tactic (snd (snd (run_safe_loop [] s_ok rep0)))))
                 (fst (snd (run_safe_loop [] s_ok rep0))))"
    by blast
  then have safe: "fst (run_safe_loop [raising_safe_tactic] s_ok rep0) =
       [exception_result ''u1'' None ''raises'' ''2024-01-01T00:00:00''
          (Exn ''ProbeError'' ''script failed'')]"
    by (simp add: raising_safe_tactic_def s_ok_def x_def)
  from len third safe show ?thesis by simp
qed

text \<open>
  Claim C6, as stated, fails: when the session is lost during the second of the six safe
  tactics, the run still yields six results, five of them failures, and the success rate is
  one in six, not one in one.
\<close>

theorem C6_counterexample_session_lost_at_second:
  "map success (fst (run_safe_tactics tk_loses_session s_ok rep0)) =
     [True, False, False, False, False, False]
   \<and> success_rate (analyze_tactic_effectiveness (fst (run_safe_tactics tk_loses_session s_ok rep0)))
       = 50 / 3"
proof -
  define t1 where "t1 = safe_tactics tk_loses_session ! 0"
  define t2 where "t2 = safe_tactics tk_loses_session ! 1"
  define rest where "rest = drop 2 (safe_tactics tk_loses_session)"
  have cat: "safe_tactics tk_loses_session = t1 # t2 # rest"
    by (simp add: t1_def t2_def rest_def safe_tactics_def)
  have four: "length rest = 4" by (simp add: rest_def safe_tactics_def)
  have dead: "drv_current_url s_dead = Inl session_gone" by (simp add: s_dead_def)
  obtain b where ok: "safe_before_state s_ok = Inr b"
    by (simp add: safe_before_state_def raise_bind_def s_ok_def)
  have p1: "tactic_method t1 s_ok = (Inr ok_result, s_ok)"
    by (simp add: t1_def safe_tactics_def tk_loses_session_def s_ok_def)
  have p2: "tactic_method t2 s_ok = (Inl session_gone, s_dead)"
    by (simp add: t2_def safe_tactics_def tk_loses_session_def)
  obtain r1 rep1 s1 where st1: "safe_step t1 s_ok rep0 = (r1, rep1, s1)"
    by (cases "safe_step t1 s_ok rep0") auto
  from safe_step_session [OF ok, of t1 rep0] st1 p1 have s1: "s1 = s_ok" by simp
  from safe_step_success [OF ok, of t1 ok_result rep0] st1 p1 have r1: "success r1"
    by (simp add: ok_result_def get_or_def)
  have st2: "safe_step t2 s_ok rep1 =
      (exception_result (tactic_name t2) None (tactic_description t2) (clock_iso s_dead)
         session_gone, rep1, s_dead)"
    using safe_step_raise [OF ok, of t2 session_gone rep1] p2 by simp
  have "map success (fst (run_safe_tactics tk_loses_session s_ok rep0)) =
     True # False # map (\<lambda>t. False) rest"
    using st1 s1 r1 st2
    by (simp add: run_safe_tactics_def cat safe_loop_dead [OF dead] exception_result_def comp_def)
  also have "map (\<lambda>t. False) rest = replicate (length rest) False"
    by (simp add: map_replicate_const)
  finally have run: "map success (fst (run_safe_tactics tk_loses_session s_ok rep0)) =
     [True, False, False, False, False, False]"
    by (simp add: four numeral_eq_Suc)
  have len: "length (fst (run_safe_tactics tk_loses_session s_ok rep0)) = 6"
    using arg_cong [OF run, of length] by simp
  have "length (filter success (fst (run_safe_tactics tk_loses_session s_ok rep0))) =
     length (filter id (map success (fst (run_safe_tactics tk_loses_session s_ok rep0))))"
    by (simp add: filter_map comp_def)
  then have succ: "length (filter success (fst (run_safe_tactics tk_loses_session s_ok rep0))) = 1"
    by (simp add: run)
  from run len succ show ?thesis
    by (simp add: analyze_tactic_effectiveness_def Let_def)
qed

text \<open>
  Claim C6, amended. The executors have no early termination and no result or report
  carries an \<^verbatim>\<open>incomplete\<close> flag. On an unreachable session (the reads of the safe run
  raise; the probes of the liberation run raise and leave the session as it is) every
  remaining tactic is still attempted and recorded as a failed result carrying the
  exception's text, so a run of N tactics yields N results, and the success rate counts the
  failed ones in its denominator. The only check of the session is the first navigation:
  when \<^verbatim>\<open>go_to_url\<close> fails, \<^verbatim>\<open>scout_site\<close> returns \<^verbatim>\<open>None\<close>, not a report.
\<close>

theorem C6_unreachable_session_still_recorded:
  assumes "drv_current_url s = Inl e"
    and "list_all (probe_raises_in s') ts"
    and "setup_monitoring env s0 = Inr s1"
    and "go_to_url env u s1 = Inr (False, s2)"
  shows "run_safe_loop us s rep =
       (map (\<lambda>t. exception_result (tactic_name t) None (tactic_description t) (clock_iso s) e)
          us, rep, s)
     \<and> run_liberation_loop ts s' rep =
       (map (\<lambda>t. exception_result (tactic_name t) (Some (tactic_level t))
                   (tactic_description t) (clock_iso s') (raised_in s' t)) ts, rep, s')
     \<and> success_rate (analyze_tactic_effectiveness (done @ fst (run_safe_loop us s rep))) =
       (if length done + length us > 0
        then of_nat (length (filter success done)) / of_nat (length done + length us) * 100
        else 0)
     \<and> scout_site env toolkit s0 u safe_mode = Inr None"
  using assms
  by (simp add: safe_loop_dead liberation_loop_dead success_rate_with_failures
      scout_site_unreachable)

theorem C6_witness_dead_session:
  "map success (fst (run_safe_loop (safe_tactics tk_loses_session) s_dead rep0)) =
     [False, False, False, False, False, False]
   \<and> length (fst (run_liberation_loop (liberation_sequence tk_loses_session) s_dead rep0)) = 19
   \<and> list_all (\<lambda>r. error r = Some ''Message: invalid session id'')
        (fst (run_liberation_loop (liberation_sequence tk_loses_session) s_dead rep0))
   \<and> success_rate (analyze_tactic_effectiveness
        (fst (run_safe_loop (safe_tactics tk_loses_session) s_dead rep0))) = 0
   \<and> scout_site env_unreachable tk_idle s_ok ''https://example.com/'' True = Inr None"
proof -
  define us where "us = safe_tactics tk_loses_session"
  define ts where "ts = liberation_sequence tk_loses_session"
  have h1: "drv_current_url s_dead = Inl session_gone" by (simp add: s_dead_def)
  have h2: "list_all (probe_raises_in s_dead) ts"
    by (simp add: ts_def liberation_sequence_def mk_tactic_def probe_raises_in_def
        tk_loses_session_def probe_endpoints_method_def h1)
  have x: "list_all (\<lambda>t. raised_in s_dead t = session_gone) ts"
    by (simp add: ts_def liberation_sequence_def mk_tactic_def raised_in_def
        tk_loses_session_def probe_endpoints_method_def h1)
  have h3: "setup_monitoring env_unreachable s_ok = Inr s_ok"
    by (simp add: env_unreachable_def env_ok_def)
  have h4: "go_to_url env_unreachable ''https://example.com/'' s_ok = Inr (False, s_ok)"
    by (simp add: env_unreachable_def env_ok_def)
  note c = C6_unreachable_session_still_recorded [OF h1 h2 h3 h4, of us rep0 "[]" tk_idle True]
  from c have a0: "run_safe_loop us s_dead rep0 =
       (map (\<lambda>t. exception_result (tactic_name t) None (tactic_description t)
                   (clock_iso s_dead) session_gone) us, rep0, s_dead)"
    by blast
  have "map success (fst (run_safe_loop us s_dead rep0)) = map (\<lambda>t. False) us"
    by (simp add: a0 exception_result_def comp_def)
  also have "map (\<lambda>t. False) us = [False, False, False, False, False, False]"
    by (simp add: us_def safe_tactics_def)
  finally have a: "map success (fst (run_safe_loop us s_dead rep0)) =
     [False, False, False, False, False, False]" .
  from c have b: "run_liberation_loop ts s_dead rep0 =
      (map (\<lambda>t. exception_result (tactic_name t) (Some (tactic_level t))
                   (tactic_description t) (clock_iso s_dead) (raised_in s_dead t)) ts,
       rep0, s_dead)"
    by blast
  have "length ts = 19" by (simp add: ts_def liberation_sequence_def)
  then have b1: "length (fst (run_liberation_loop ts s_dead rep0)) = 19"
    by (simp add: b)
  have b2: "list_all (\<lambda>r. error r = Some ''Message: invalid session id'')
        (fst (run_liberation_loop ts s_dead rep0))"
    using x by (simp add: b list_all_iff exception_result_def session_gone_def)
  from c [THEN conjunct2, THEN conjunct2, THEN conjunct1]
  have d: "success_rate (analyze_tactic_effectiveness (fst (run_safe_loop us s_dead rep0))) = 0"
    by simp
  from c have f: "scout_site env_unreachable tk_idle s_ok ''https://example.com/'' True = Inr None"
    by blast
  from a b1 b2 d f show ?thesis by (simp add: us_def ts_def)
qed

section \<open>Claims about the measured impact\<close>

text \<open>
  When the measurement runs to its end, \<^verbatim>\<open>significant_change\<close> is the disjunction of the
  seven factors.
\<close>

lemma measured_significance:
  assumes "measured_ok (measure_tactic_impact s b)"
  shows "\<exists>cd vd lc.
     content_changes (measure_tactic_impact s b) = Some cd
     \<and> visibility_changes (measure_tactic_impact s b) = Some vd
     \<and> liberation_indicators (measure_tactic_impact s b) = Some lc
     \<and> significant_change (measure_tactic_impact s b) =
        (elements_changed (measure_tactic_impact s b) > 10
         \<or> percent_change cd > 10
         \<or> elements_revealed vd > 5
         \<or> m_url_changed (measure_tactic_impact s b)
         \<or> (no_fixed_overlays lc \<and> \<not> get_or (bs_no_fixed_overlays b) True)
         \<or> (no_blur lc \<and> \<not> get_or (bs_no_blur b) True)
         \<or> new_buttons lc > 0 \<or> new_links lc > 0)"
  using assms
  by (auto simp add: measure_tactic_impact_def measure_try_def measure_fallback_def Let_def
      significant_factors_def initial_tactic_impact_def split: sum.splits prod.splits option.splits)

lemma measure_try_keeps_flag:
  "measure_try s b i = (i', Some e) \<Longrightarrow> significant_change i' = significant_change i"
  by (auto simp add: measure_try_def Let_def split: sum.splits)

lemma measure_fallback_keeps_flag:
  "significant_change (measure_fallback s b i) = significant_change i"
  by (simp add: measure_fallback_def Let_def split: sum.splits)

lemma measure_try_string_timestamp:
  "bs_timestamp b = Some (TStr txt) \<Longrightarrow> snd (measure_try s b i) \<noteq> None"
  by (simp add: measure_try_def Let_def elapsed_since_def split: sum.splits)

lemma safe_before_state_timestamp:
  "safe_before_state s = Inr b \<Longrightarrow> bs_timestamp b = Some (TStr (clock_iso s))"
  by (auto simp add: safe_before_state_def raise_bind_def split: sum.splits)

text \<open>
  The safe run, the only caller, stores an ISO string under \<^verbatim>\<open>'timestamp'\<close>; the subtraction
  in step 6 then raises, and the handler leaves \<^verbatim>\<open>significant_change\<close> as it was, \<^verbatim>\<open>False\<close>.
\<close>

lemma safe_run_never_significant:
  assumes "safe_before_state s = Inr b"
  shows "\<not> significant_change (measure_tactic_impact s' b)"
proof -
  obtain i x where m: "measure_try s' b initial_tactic_impact = (i, x)"
    by (cases "measure_try s' b initial_tactic_impact") auto
  from measure_try_string_timestamp [OF safe_before_state_timestamp [OF assms], of s' initial_tactic_impact] m
  obtain e where x: "x = Some e" by auto
  from measure_try_keeps_flag [of s' b initial_tactic_impact i e] m x
  have "\<not> significant_change i" by (simp add: initial_tactic_impact_def)
  then show ?thesis
    by (simp add: measure_tactic_impact_def m x measure_fallback_keeps_flag)
qed

text \<open>
  Claim C3 at an input the safe run produces: the page moved to another URL and gained fifty
  elements between the before-state and the measurement. Two of the claim's factors hold
  (URL changed, element delta above 10), yet \<^verbatim>\<open>significant_change\<close> is \<^verbatim>\<open>False\<close>: the measurement
  stopped at the \<^verbatim>\<open>TypeError\<close> of step 6.
\<close>

theorem C3_safe_run_significance_lost:
  "bs_timestamp (projr (safe_before_state s_ok)) = Some (TStr ''2024-01-01T00:00:00'')
   \<and> m_url_changed (measure_tactic_impact s_moved (projr (safe_before_state s_ok)))
   \<and> elements_changed (measure_tactic_impact s_moved (projr (safe_before_state s_ok))) = 50
   \<and> \<not> significant_change (measure_tactic_impact s_moved (projr (safe_before_state s_ok)))
   \<and> \<not> measured_ok (measure_tactic_impact s_moved (projr (safe_before_state s_ok)))
   \<and> m_error (measure_tactic_impact s_moved (projr (safe_before_state s_ok))) =
       Some (''unsupported operand type(s) for -: '' @ quoted ''float'' @ '' and '' @ quoted ''str'')"
  by (simp add: safe_before_state_def raise_bind_def s_ok_def s_moved_def
      measure_tactic_impact_def measure_try_def measure_fallback_def Let_def
      elapsed_since_def initial_tactic_impact_def get_or_def)

section \<open>Lemmas about the DOM diff\<close>

lemma analyze_metrics_unchanged:
  "list_all (\<lambda>(k, v). map_of last_stats k = Some v) rest \<Longrightarrow>
   analyze_metrics rest last_stats td ch = (ch, None)"
  by (induction rest) auto

lemma distinct_lookup_all:
  "distinct (map fst d) \<Longrightarrow> list_all (\<lambda>(k, v). map_of d k = Some v) d"
  by (auto simp add: list_all_iff)

lemma performance_analysis_frame:
  "summary (fst (performance_analysis c l ch)) = summary ch"
  "dom_details (fst (performance_analysis c l ch)) = dom_details ch"
  "significant_changes (fst (performance_analysis c l ch)) = significant_changes ch"
  by (simp_all add: performance_analysis_def Let_def split: sum.splits prod.splits)

lemma compare_stats_same:
  assumes "distinct (map fst d)"
  shows "summary (fst (compare_stats d d ch)) = summary ch"
    and "dom_details (fst (compare_stats d d ch)) = dom_details ch"
    and "significant_changes (fst (compare_stats d d ch)) = significant_changes ch"
  using analyze_metrics_unchanged [OF distinct_lookup_all [OF assms]]
  by (simp_all add: compare_stats_def performance_analysis_frame split: sum.splits prod.splits)

lemma detect_dom_changes_same:
  assumes "distinct (map fst d)"
  shows "summary (fst (detect_dom_changes (s\<lparr>drv_dom_stats := Inr d\<rparr>) (Some d))) = []"
    and "dom_details (fst (detect_dom_changes (s\<lparr>drv_dom_stats := Inr d\<rparr>) (Some d))) = Map.empty"
    and "\<not> significant_changes (fst (detect_dom_changes (s\<lparr>drv_dom_stats := Inr d\<rparr>) (Some d)))"
proof -
  obtain ch x where c: "compare_stats d d initial_dom_changes = (ch, x)"
    by (cases "compare_stats d d initial_dom_changes") auto
  from compare_stats_same [OF assms, of initial_dom_changes] c
  have "summary ch = []" "dom_details ch = Map.empty" "\<not> significant_changes ch"
    by (simp_all add: initial_dom_changes_def)
  then show "summary (fst (detect_dom_changes (s\<lparr>drv_dom_stats := Inr d\<rparr>) (Some d))) = []"
    and "dom_details (fst (detect_dom_changes (s\<lparr>drv_dom_stats := Inr d\<rparr>) (Some d))) = Map.empty"
    and "\<not> significant_changes (fst (detect_dom_changes (s\<lparr>drv_dom_stats := Inr d\<rparr>) (Some d)))"
    by (simp_all add: detect_dom_changes_def c split: option.splits)
qed

lemma detect_state_changes_same: "detect_state_changes S S = []"
  by (simp add: detect_state_changes_def)














section \<open>Claims about the DOM diff\<close>

text \<open>
  Claim C5. Comparing a state with itself finds nothing: \<^verbatim>\<open>_detect_state_changes\<close> returns the
  empty list for every snapshot; \<^verbatim>\<open>_detect_dom_changes\<close>, called on a page whose statistics
  equal the ones kept from the previous call, records no metric at all (so none is major
  or moderate), writes no summary line and leaves \<^verbatim>\<open>significant_changes\<close> false; and every
  delta \<^verbatim>\<open>_calculate_impact\<close> computes between a snapshot and itself is zero. The statistics
  are a dictionary: their keys are distinct.
\<close>

theorem C5_diff_with_itself_is_empty:
  assumes "distinct (map fst d)"
  shows "detect_state_changes S S = []
     \<and> \<not> significant_changes (fst (detect_dom_changes (s\<lparr>drv_dom_stats := Inr d\<rparr>) (Some d)))
     \<and> dom_details (fst (detect_dom_changes (s\<lparr>drv_dom_stats := Inr d\<rparr>) (Some d))) = Map.empty
     \<and> summary (fst (detect_dom_changes (s\<lparr>drv_dom_stats := Inr d\<rparr>) (Some d))) = []
     \<and> elements_added (calculate_impact S S ctx) = 0
     \<and> text_added (calculate_impact S S ctx) = 0
     \<and> content_increase_pct (calculate_impact S S ctx) = 0
     \<and> \<not> url_changed (calculate_impact S S ctx)
     \<and> \<not> cookies_modified (calculate_impact S S ctx)
     \<and> \<not> storage_modified (calculate_impact S S ctx)"
  using detect_dom_changes_same [OF assms, of s]
  by (simp add: detect_state_changes_same calculate_impact_def content_increase_def)

theorem C5_witness_same_page:
  "detect_state_changes (capture_state_snapshot s_ok) (capture_state_snapshot s_ok) = []
   \<and> \<not> significant_changes (fst (detect_dom_changes (s_ok\<lparr>drv_dom_stats := Inr last_stats0\<rparr>) (Some last_stats0)))
   \<and> dom_details (fst (detect_dom_changes (s_ok\<lparr>drv_dom_stats := Inr last_stats0\<rparr>) (Some last_stats0))) = Map.empty"
proof -
  have d: "distinct (map fst last_stats0)" by (simp add: last_stats0_def)
  from C5_diff_with_itself_is_empty [OF d, of "capture_state_snapshot s_ok" s_ok None] show ?thesis by simp
qed





end
